theory Spec2Isabelle
  imports Complex_Main "HOL-Library.Sublist"
begin

section \<open>The branch dropdown of the toolbar (app/src/ui/toolbar/branch-dropdown.tsx)\<close>

text \<open>
  The component is a React class: its \<open>render\<close> method is a pure function of the props
  and of the component state, and its event handlers call collaborators (the dispatcher,
  the drag-and-drop manager, the callback prop of the host). The embedding keeps both:
  \<open>render\<close> returns the element it builds (or nothing, or the failure of the
  unreachable branch), and every handler returns the list of collaborator calls it
  makes, in the order of the source.
\<close>

subsection \<open>Data model\<close>

text \<open>The four icons the component names (\<open>OcticonSymbol.*\<close> and \<open>syncClockwise\<close>).\<close>

datatype OcticonSymbol = gitBranch | gitPullRequest | gitCommit | syncClockwise

text \<open>
  The fields of a branch that the component reads. \<open>upstreamWithoutRemote\<close> is
  \<open>string | null\<close> in the source.
\<close>

record Branch =
  name :: string
  upstreamWithoutRemote :: "string option"
  isDesktopForkRemoteBranch :: bool

text \<open>
  The tip of the repository: the tagged union \<open>Tip\<close> with the four kinds of
  \<open>TipState\<close>. The TypeScript type has no fifth member; \<open>Unrecognized k\<close> stands for
  a run-time value whose kind tag \<open>k\<close> is none of the four, which is what the last
  \<open>else\<close> branch of \<open>render\<close> is written for.
\<close>

datatype Tip =
    Unknown
  | Unborn (ref: string)
  | Detached (currentSha: string)
  | Valid (branch: Branch)
  | Unrecognized (kind: string)

text \<open>
  \<open>ICheckoutProgress\<close>: the target branch and the progress, a JavaScript number, that is
  an IEEE 754 double. A finite double is held as the real number that it denotes; NaN and
  the infinities are not modelled (the progress is in the interval from 0 to 1).
\<close>

record ICheckoutProgress =
  targetBranch :: string
  checkoutValue :: real

text \<open>
  The conflict states. Only the rebase kind carries the target branch that the component
  reads.
\<close>

datatype ConflictState =
    MergeConflictState
  | RebaseConflictState (conflictTargetBranch: string)
  | CherryPickConflictState

text \<open>
  Modelled from the spec: \<open>isRebaseConflictState\<close> of lib/app-state is not among the
  sources; the spec calls it the test that the conflict state is "of the rebase kind".
\<close>

fun isRebaseConflictState :: "ConflictState \<Rightarrow> bool" where
  "isRebaseConflictState (RebaseConflictState t) = True"
| "isRebaseConflictState c = False"

record IBranchesState =
  tip :: Tip
  allBranches :: "Branch list"

record IChangesState =
  conflictState :: "ConflictState option"

record IRepositoryState =
  branchesState :: IBranchesState
  checkoutProgress :: "ICheckoutProgress option"
  changesState :: IChangesState

type_synonym GitHubRepository = string

record PullRequest =
  pullRequestNumber :: nat
  baseGitHubRepository :: GitHubRepository

datatype DropdownState = Open | Closed

record IBranchDropdownProps =
  repositoryState :: IRepositoryState
  isOpen :: bool
  currentPullRequest :: "PullRequest option"
  shouldNudge :: bool
  showCIStatusPopover :: bool

record IBranchDropdownState =
  badgeBottom :: real

subsection \<open>Numbers\<close>

text \<open>
  The product of two doubles is the exact product rounded to the nearest double, a tie
  going to the even significand. \<open>ulpExponent x\<close> is the exponent of the unit in the
  last place of the doubles around \<open>x\<close>: 52 below the binary exponent of \<open>x\<close>, and
  that of the subnormal numbers below \<open>2 powi - 1022\<close>. The overflow to infinity is not
  modelled: the products of the component are those of a progress with 100.
\<close>

definition roundHalfEven :: "real \<Rightarrow> int" where
  "roundHalfEven y =
     (let f = \<lfloor>y\<rfloor>
      in if y - of_int f < 1 / 2 then f
         else if y - of_int f > 1 / 2 then f + 1
         else if even f then f else f + 1)"

definition ulpExponent :: "real \<Rightarrow> int" where
  "ulpExponent x = max \<lfloor>log 2 \<bar>x\<bar>\<rfloor> (- 1022) - 52"

definition roundToDouble :: "real \<Rightarrow> real" where
  "roundToDouble x =
     (if x = 0 then 0
      else of_int (roundHalfEven (x / 2 powi ulpExponent x)) * 2 powi ulpExponent x)"

definition times_double :: "real \<Rightarrow> real \<Rightarrow> real" where
  "times_double x y = roundToDouble (x * y)"

text \<open>\<open>Math.round\<close>: the nearest integer, a half rounded up; no rounding error is
  involved.\<close>

definition Math_round :: "real \<Rightarrow> int" where
  "Math_round x = \<lfloor>x + 1 / 2\<rfloor>"

fun string_of_nat :: "nat \<Rightarrow> string" where
  "string_of_nat n =
     (if n < 10 then [''0123456789'' ! n]
      else string_of_nat (n div 10) @ [''0123456789'' ! (n mod 10)])"

text \<open>
  An integral number in a template string: its decimal digits, after a minus sign when
  it is negative. This is what the source prints for a number below \<open>1e21\<close>, where its
  exponent notation starts; the percentage of a progress of at most 1 is at most 100.
\<close>

definition string_of_int :: "int \<Rightarrow> string" where
  "string_of_int i = (if i < 0 then ''-'' @ string_of_nat (nat (- i)) else string_of_nat (nat i))"

subsection \<open>render\<close>

text \<open>
  The local variables of \<open>render\<close> at line 172, after the tip has been classified and
  the checkout and conflict overrides have been applied.
\<close>

record DisplayState =
  icon :: OcticonSymbol
  iconClassName :: "string option"
  title :: string
  description :: string
  canOpen :: bool
  disabled :: bool
  tooltip :: string
  progressValue :: "real option"

text \<open>Lines 150 to 171: the checkout override, else the rebase override.\<close>

definition applyOverrides :: "bool \<Rightarrow> IRepositoryState \<Rightarrow> DisplayState \<Rightarrow> DisplayState" where
  "applyOverrides DARWIN rs d =
     (case checkoutProgress rs of
        Some cp \<Rightarrow>
          (let description1 = (if DARWIN then ''Switching to Branch'' else ''Switching to branch'');
               description2 =
                 (if checkoutValue cp > 0
                  then description1 @ '' ('' @ string_of_int (Math_round (times_double (checkoutValue cp) 100)) @ ''%)''
                  else description1)
           in d\<lparr>title := targetBranch cp, description := description2,
                 progressValue := Some (checkoutValue cp), icon := syncClockwise,
                 iconClassName := Some ''spin'', canOpen := False\<rparr>)
      | None \<Rightarrow>
          (case conflictState (changesState rs) of
             None \<Rightarrow> d
           | Some c \<Rightarrow>
               (if isRebaseConflictState c
                then d\<lparr>title := conflictTargetBranch c, description := ''Rebasing branch'',
                       icon := gitBranch, canOpen := False, disabled := True\<rparr>
                else d)))"

text \<open>
  The failure of \<open>assertNever\<close>. Modelled from the spec: lib/fatal-error is not among
  the sources; the spec calls it the explicit "unreachable state" error that stops the
  derivation of the render cycle.
\<close>

datatype error = UnreachableState string

definition assertNever :: "Tip \<Rightarrow> string \<Rightarrow> error + 'a" where
  "assertNever x message = Inl (UnreachableState message)"

text \<open>
  Lines 110 to 148: the defaults, the pull-request icon and the classification of the
  tip. The result is the failure of the unreachable branch, or nothing (the early
  \<open>return null\<close> of the unknown tip), or the local variables as they are at line 149.
  \<open>DARWIN\<close> is the build constant \<open>__DARWIN__\<close>.
\<close>

definition classifyTip :: "bool \<Rightarrow> IBranchDropdownProps \<Rightarrow> error + DisplayState option" where
  "classifyTip DARWIN p =
     (let branchesState = branchesState (repositoryState p);
          d0 = \<lparr>icon = (if currentPullRequest p \<noteq> None then gitPullRequest else gitBranch),
                iconClassName = None,
                title = [],
                description = (if DARWIN then ''Current Branch'' else ''Current branch''),
                canOpen = True,
                disabled = False,
                tooltip = [],
                progressValue = None\<rparr>
      in case tip branchesState of
           Unknown \<Rightarrow> Inr None
         | Unborn r \<Rightarrow>
             Inr (Some (d0\<lparr>title := r, tooltip := ''Current branch is '' @ r,
                           canOpen := list_ex (\<lambda>b. \<not> isDesktopForkRemoteBranch b)
                                        (allBranches branchesState)\<rparr>))
         | Detached sha \<Rightarrow>
             Inr (Some (d0\<lparr>title := ''On '' @ take 7 sha,
                           tooltip := ''Currently on a detached HEAD'',
                           icon := gitCommit, description := ''Detached HEAD''\<rparr>))
         | Valid b \<Rightarrow>
             Inr (Some (d0\<lparr>title := name b, tooltip := ''Current branch is '' @ name b\<rparr>))
         | Unrecognized tipKind \<Rightarrow>
             assertNever (tip branchesState) (''Unknown tip state: '' @ tipKind))"

text \<open>Lines 110 to 171: the classification, then the overrides.\<close>

definition displayState :: "bool \<Rightarrow> IBranchDropdownProps \<Rightarrow> error + DisplayState option" where
  "displayState DARWIN p =
     (case classifyTip DARWIN p of
        Inl e \<Rightarrow> Inl e
      | Inr None \<Rightarrow> Inr None
      | Inr (Some d) \<Rightarrow> Inr (Some (applyOverrides DARWIN (repositoryState p) d)))"

text \<open>The two children that \<open>render\<close> may build.\<close>

record PullRequestBadge =
  badgeNumber :: nat
  badgeRepository :: GitHubRepository

record CICheckRunPopover =
  prNumber :: nat
  popoverRepository :: GitHubRepository
  branchName :: string
  popoverBadgeBottom :: real

text \<open>Lines 259 to 289.\<close>

definition renderPopover ::
  "IBranchDropdownProps \<Rightarrow> IBranchDropdownState \<Rightarrow> CICheckRunPopover option" where
  "renderPopover p s =
     (let currentBranchName =
            (case tip (branchesState (repositoryState p)) of
               Valid b \<Rightarrow> (case upstreamWithoutRemote b of Some u \<Rightarrow> u | None \<Rightarrow> name b)
             | _ \<Rightarrow> [])
      in case currentPullRequest p of
           None \<Rightarrow> None
         | Some pr \<Rightarrow>
             Some \<lparr>prNumber = pullRequestNumber pr,
                   popoverRepository = baseGitHubRepository pr,
                   branchName = currentBranchName,
                   popoverBadgeBottom = badgeBottom s\<rparr>)"

text \<open>Lines 291 to 307.\<close>

definition renderPullRequestInfo :: "IBranchDropdownProps \<Rightarrow> PullRequestBadge option" where
  "renderPullRequestInfo p =
     (case currentPullRequest p of
        None \<Rightarrow> None
      | Some pr \<Rightarrow> Some \<lparr>badgeNumber = pullRequestNumber pr,
                         badgeRepository = baseGitHubRepository pr\<rparr>)"

text \<open>
  The element that \<open>render\<close> returns: the props of the \<open>ToolbarDropdown\<close> (the local
  variables passed as they are, under \<open>display\<close>, and the props computed from them), its
  child and the popover beside it.
\<close>

record Rendered =
  className :: string
  display :: DisplayState
  tooltipProp :: "string option"
  dropdownState :: DropdownState
  showDisclosureArrow :: bool
  buttonClassName :: string
  pullRequestInfo :: "PullRequestBadge option"
  popover :: "CICheckRunPopover option"

text \<open>Lines 109 to 202.\<close>

definition render ::
  "bool \<Rightarrow> IBranchDropdownProps \<Rightarrow> IBranchDropdownState \<Rightarrow> error + Rendered option" where
  "render DARWIN p s =
     (case displayState DARWIN p of
        Inl e \<Rightarrow> Inl e
      | Inr None \<Rightarrow> Inr None
      | Inr (Some d) \<Rightarrow>
          Inr (Some
            \<lparr>className = ''branch-button'',
             display = d,
             tooltipProp = (if isOpen p then None else Some (tooltip d)),
             dropdownState = (if isOpen p \<and> canOpen d then Open else Closed),
             showDisclosureArrow = canOpen d,
             buttonClassName =
               (if shouldNudge p then ''nudge-arrow nudge-arrow-up'' else ''nudge-arrow''),
             pullRequestInfo = renderPullRequestInfo p,
             popover = (if showCIStatusPopover p then renderPopover p s else None)\<rparr>))"

subsection \<open>Collaborator calls\<close>

datatype FoldoutType = FoldoutType_Branch | FoldoutType_Other

datatype DragType = Commit | OtherDragType

text \<open>
  The calls that the handlers make: the callback prop \<open>onDropDownStateChanged\<close> of the
  host, \<open>dragAndDropManager.emitEnterDragZone\<close>, and \<open>showFoldout\<close>, \<open>closeFoldout\<close>
  and \<open>setShowCIStatusPopover\<close> of the dispatcher.
\<close>

datatype effect =
    PropsOnDropDownStateChanged DropdownState
  | EmitEnterDragZone string
  | ShowFoldout FoldoutType
  | CloseFoldout FoldoutType
  | SetShowCIStatusPopover bool

text \<open>
  The drag-and-drop manager is a global of lib/drag-and-drop-manager; what the component
  reads of it is the kind of the drag in progress, if any.
  Modelled from the spec: \<open>isDragOfTypeInProgress\<close> is not among the sources; the spec
  calls it the query whether a drag session of the given kind is in progress.
\<close>

type_synonym DragAndDropManager = "DragType option"

definition isDragOfTypeInProgress :: "DragAndDropManager \<Rightarrow> DragType \<Rightarrow> bool" where
  "isDragOfTypeInProgress dragAndDropManager t = (dragAndDropManager = Some t)"

subsection \<open>The document\<close>

text \<open>
  The document tree that \<open>closePopover\<close> queries. A node has an \<open>id\<close> attribute or none,
  and its children in order; a node is referred to by the path of child indices that
  leads to it from the root.
\<close>

datatype Node = Node (nodeId: "string option") (childNodes: "Node list")

type_synonym NodeRef = "nat list"

fun nodeAt :: "Node \<Rightarrow> NodeRef \<Rightarrow> Node option" where
  "nodeAt n [] = Some n"
| "nodeAt n (i # r) =
     (if i < length (childNodes n) then nodeAt (childNodes n ! i) r else None)"

text \<open>\<open>document.getElementById\<close>: the first node in tree order with that id.\<close>

fun getElementById :: "Node \<Rightarrow> string \<Rightarrow> NodeRef option"
  and getElementByIdIn :: "Node list \<Rightarrow> nat \<Rightarrow> string \<Rightarrow> NodeRef option" where
  "getElementById (Node i cs) s = (if i = Some s then Some [] else getElementByIdIn cs 0 s)"
| "getElementByIdIn [] k s = None"
| "getElementByIdIn (c # cs) k s =
     (case getElementById c s of
        Some r \<Rightarrow> Some (k # r)
      | None \<Rightarrow> getElementByIdIn cs (Suc k) s)"

text \<open>
  \<open>Node.contains\<close>: the other node is this node or one of its descendants. A reference
  that leads to no node of the document is a node outside of it, which no node of the
  document contains.
\<close>

definition contains_node :: "Node \<Rightarrow> NodeRef \<Rightarrow> NodeRef \<Rightarrow> bool" where
  "contains_node document this other = (nodeAt document other \<noteq> None \<and> prefix this other)"

text \<open>An event target is a node or another object (the window, say); the \<open>target\<close> of an
  event may be null.\<close>

datatype EventTarget = NodeTarget NodeRef | OtherTarget

record MouseEvent =
  target :: "EventTarget option"

subsection \<open>The handlers\<close>

text \<open>Lines 100 to 107.\<close>

definition onDropDownStateChanged :: "IBranchDropdownProps \<Rightarrow> DropdownState \<Rightarrow> effect list" where
  "onDropDownStateChanged p state =
     (if state = Open \<and> checkoutProgress (repositoryState p) \<noteq> None then []
      else [PropsOnDropDownStateChanged state])"

text \<open>Lines 210 to 215.\<close>

definition onMouseEnter :: "DragAndDropManager \<Rightarrow> IBranchDropdownProps \<Rightarrow> effect list" where
  "onMouseEnter dragAndDropManager p =
     (if isDragOfTypeInProgress dragAndDropManager Commit
      then [EmitEnterDragZone ''branch-button'', ShowFoldout FoldoutType_Branch]
      else [])"

text \<open>Lines 234 to 236.\<close>

definition openPopover :: "effect list" where
  "openPopover = [SetShowCIStatusPopover True]"

text \<open>Lines 238 to 257.\<close>

definition closePopover :: "Node \<Rightarrow> MouseEvent option \<Rightarrow> effect list" where
  "closePopover document event =
     (case event of
        None \<Rightarrow> [SetShowCIStatusPopover False]
      | Some ev \<Rightarrow>
          (let prBadgeElem = getElementById document ''pr-badge'';
               rerunDialog = getElementById document ''rerun-check-runs''
           in case target ev of
                Some (NodeTarget t) \<Rightarrow>
                  (if (prBadgeElem \<noteq> None \<and> contains_node document (the prBadgeElem) t) \<or>
                      (rerunDialog \<noteq> None \<and> contains_node document (the rerunDialog) t)
                   then []
                   else [SetShowCIStatusPopover False])
              | _ \<Rightarrow> [SetShowCIStatusPopover False]))"

text \<open>Lines 221 to 228; \<open>onBadgeClick\<close> (lines 217 to 219) only calls it.\<close>

definition togglePopover :: "Node \<Rightarrow> IBranchDropdownProps \<Rightarrow> effect list" where
  "togglePopover document p =
     (if showCIStatusPopover p then closePopover document None
      else [CloseFoldout FoldoutType_Branch] @ openPopover)"

definition onBadgeClick :: "Node \<Rightarrow> IBranchDropdownProps \<Rightarrow> effect list" where
  "onBadgeClick document p = togglePopover document p"

text \<open>Lines 230 to 232.\<close>

definition updateBadgeBottomPosition :: "real \<Rightarrow> IBranchDropdownState \<Rightarrow> IBranchDropdownState" where
  "updateBadgeBottomPosition b s = s\<lparr>badgeBottom := b\<rparr>"

subsection \<open>The host\<close>

text \<open>
  The two visibility flags live in the host: the component reads them as the props
  \<open>isOpen\<close> and \<open>showCIStatusPopover\<close> and only asks for them to change.
\<close>

record OverlayVisibility =
  pickerOpen :: bool
  popoverOpen :: bool

text \<open>
  Modelled from the spec: the dispatcher and the host's \<open>onDropDownStateChanged\<close> are not
  among the sources. By the spec the foldout manager opens and closes the branch picker
  on \<open>open(kind)\<close> and \<open>close(kind)\<close>, a forwarded open request "flips state to open", a
  close request is honoured, and the popover is visible as the flag that the
  coordinator asks to set. Entering a drag zone changes neither flag.
\<close>

fun dispatch :: "OverlayVisibility \<Rightarrow> effect \<Rightarrow> OverlayVisibility" where
  "dispatch v (PropsOnDropDownStateChanged Open) = v\<lparr>pickerOpen := True\<rparr>"
| "dispatch v (PropsOnDropDownStateChanged Closed) = v\<lparr>pickerOpen := False\<rparr>"
| "dispatch v (EmitEnterDragZone z) = v"
| "dispatch v (ShowFoldout FoldoutType_Branch) = v\<lparr>pickerOpen := True\<rparr>"
| "dispatch v (ShowFoldout FoldoutType_Other) = v\<lparr>pickerOpen := False\<rparr>"
| "dispatch v (CloseFoldout FoldoutType_Branch) = v\<lparr>pickerOpen := False\<rparr>"
| "dispatch v (CloseFoldout FoldoutType_Other) = v"
| "dispatch v (SetShowCIStatusPopover b) = v\<lparr>popoverOpen := b\<rparr>"

text \<open>The host runs the calls of a handler in order.\<close>

definition dispatchAll :: "OverlayVisibility \<Rightarrow> effect list \<Rightarrow> OverlayVisibility" where
  "dispatchAll v es = foldl dispatch v es"

text \<open>The props that the component sees when the flags are \<open>v\<close>.\<close>

definition withVisibility :: "OverlayVisibility \<Rightarrow> IBranchDropdownProps \<Rightarrow> IBranchDropdownProps" where
  "withVisibility v p = p\<lparr>isOpen := pickerOpen v, showCIStatusPopover := popoverOpen v\<rparr>"

text \<open>The events that reach the handlers, and the flags after the host has run the
  calls of the handler.\<close>

datatype event =
    DropDownStateChange DropdownState
  | MouseEnter
  | BadgeClick
  | ClosePopover "MouseEvent option"

fun handle :: "DragAndDropManager \<Rightarrow> Node \<Rightarrow> IBranchDropdownProps \<Rightarrow> event \<Rightarrow> effect list" where
  "handle dnd document p (DropDownStateChange state) = onDropDownStateChanged p state"
| "handle dnd document p MouseEnter = onMouseEnter dnd p"
| "handle dnd document p BadgeClick = onBadgeClick document p"
| "handle dnd document p (ClosePopover event) = closePopover document event"

definition step ::
  "DragAndDropManager \<Rightarrow> Node \<Rightarrow> IBranchDropdownProps \<Rightarrow> OverlayVisibility \<Rightarrow> event \<Rightarrow> OverlayVisibility" where
  "step dnd document p v e = dispatchAll v (handle dnd document (withVisibility v p) e)"

subsection \<open>Vocabulary of the specification\<close>

text \<open>The tips for which \<open>render\<close> builds an element: unborn, detached and valid.\<close>

fun isClassified :: "Tip \<Rightarrow> bool" where
  "isClassified (Unborn r) = True"
| "isClassified (Detached sha) = True"
| "isClassified (Valid b) = True"
| "isClassified t = False"

text \<open>
  The specification's containment test, in its own words: the target lies within the
  subtree of the element with a given id when it is a node of the document and the
  chain of the node and its ancestors (the prefixes of its reference) meets the element
  that the id resolves to.
\<close>

definition withinSubtree :: "Node \<Rightarrow> string \<Rightarrow> NodeRef \<Rightarrow> bool" where
  "withinSubtree document elementId t =
     (nodeAt document t \<noteq> None \<and>
      list_ex (\<lambda>a. getElementById document elementId = Some a) (prefixes t))"

text \<open>
  The specification's predicate \<open>isOutsideDismissTarget(eventTarget, excludedRoots)\<close>:
  the target is outside unless it is a node within the subtree of one of the roots.
\<close>

definition isOutsideDismissTarget :: "Node \<Rightarrow> EventTarget option \<Rightarrow> string list \<Rightarrow> bool" where
  "isOutsideDismissTarget document eventTarget excludedRoots =
     (case eventTarget of
        Some (NodeTarget t) \<Rightarrow> \<not> list_ex (\<lambda>r. withinSubtree document r t) excludedRoots
      | _ \<Rightarrow> True)"

text \<open>The invariant of the two flags, and the calls that ask for the picker to open.\<close>

definition atMostOneOpen :: "OverlayVisibility \<Rightarrow> bool" where
  "atMostOneOpen v = (\<not> (pickerOpen v \<and> popoverOpen v))"

definition opensPicker :: "effect list \<Rightarrow> bool" where
  "opensPicker es =
     (ShowFoldout FoldoutType_Branch \<in> set es \<or> PropsOnDropDownStateChanged Open \<in> set es)"

text \<open>
  The flags that the handlers and the host reach from both surfaces closed, when no call
  asks for the picker to open while the popover is open.
\<close>

inductive guardedReachable :: "OverlayVisibility \<Rightarrow> bool" where
  initial: "guardedReachable \<lparr>pickerOpen = False, popoverOpen = False\<rparr>"
| after:
    "guardedReachable v \<Longrightarrow>
     (popoverOpen v \<longrightarrow> \<not> opensPicker (handle dnd document (withVisibility v p) e)) \<Longrightarrow>
     guardedReachable (step dnd document p v e)"

subsection \<open>Sample inputs\<close>

definition sampleBranch :: Branch where
  "sampleBranch = \<lparr>name = ''main'', upstreamWithoutRemote = None, isDesktopForkRemoteBranch = False\<rparr>"

definition sampleForkBranch :: Branch where
  "sampleForkBranch =
     \<lparr>name = ''pr/7'', upstreamWithoutRemote = Some ''fix-typo'', isDesktopForkRemoteBranch = True\<rparr>"

text \<open>The doubles that the literals \<open>0.42\<close> and \<open>0.425\<close> denote: both are a little less
  than the decimal fraction.\<close>

definition sampleCheckout :: ICheckoutProgress where
  "sampleCheckout =
     \<lparr>targetBranch = ''feature'', checkoutValue = 7566047373982433 / 18014398509481984\<rparr>"

definition sampleCheckoutHalfway :: ICheckoutProgress where
  "sampleCheckoutHalfway =
     \<lparr>targetBranch = ''feature'', checkoutValue = 7656119366529843 / 18014398509481984\<rparr>"

definition samplePullRequest :: PullRequest where
  "samplePullRequest = \<lparr>pullRequestNumber = 7, baseGitHubRepository = ''desktop/desktop''\<rparr>"

definition sampleProps ::
  "Tip \<Rightarrow> ICheckoutProgress option \<Rightarrow> ConflictState option \<Rightarrow> PullRequest option \<Rightarrow>
   IBranchDropdownProps" where
  "sampleProps t cp c pr =
     \<lparr>repositoryState =
        \<lparr>branchesState = \<lparr>tip = t, allBranches = [sampleBranch]\<rparr>,
         checkoutProgress = cp,
         changesState = \<lparr>conflictState = c\<rparr>\<rparr>,
      isOpen = False,
      currentPullRequest = pr,
      shouldNudge = False,
      showCIStatusPopover = False\<rparr>"

definition sampleState :: IBranchDropdownState where
  "sampleState = \<lparr>badgeBottom = 0\<rparr>"

text \<open>A document with the badge inside the toolbar button, the dialog and a third node.\<close>

definition sampleDocument :: Node where
  "sampleDocument =
     Node None
       [Node (Some ''branch-button'') [Node (Some ''pr-badge'') [Node None []]],
        Node (Some ''rerun-check-runs'') [],
        Node None []]"

definition bothClosed :: OverlayVisibility where
  "bothClosed = \<lparr>pickerOpen = False, popoverOpen = False\<rparr>"

section \<open>Properties\<close>

subsection \<open>Helper facts about the arithmetic of doubles\<close>

lemma ulpExponent_binade:
  assumes "2 powi k \<le> \<bar>x\<bar>" and "\<bar>x\<bar> < 2 powi (k + 1)" and "- 1022 \<le> k"
  shows "ulpExponent x = k - 52"
proof -
  have pos: "0 < \<bar>x\<bar>"
    using assms(1) by (smt (verit) zero_less_power_int)
  have a: "2 powr (of_int k) \<le> \<bar>x\<bar>"
    using assms(1) by (simp add: powr_real_of_int')
  have "2 powr (real_of_int (k + 1)) = 2 powi (k + 1)"
    by (rule powr_real_of_int') simp_all
  with assms(2) have b: "\<bar>x\<bar> < 2 powr (real_of_int (k + 1))"
    by simp
  have "of_int k \<le> log 2 \<bar>x\<bar>"
    using a pos by (simp add: le_log_iff)
  moreover have "log 2 \<bar>x\<bar> < of_int (k + 1)"
    using b pos by (simp add: log_less_iff)
  ultimately have "\<lfloor>log 2 \<bar>x\<bar>\<rfloor> = k"
    by (simp add: floor_unique)
  with assms(3) show ?thesis
    by (simp add: ulpExponent_def)
qed

text \<open>The samples are doubles: rounding leaves them as they are.\<close>

lemma sampleCheckout_is_double:
  "roundToDouble (checkoutValue sampleCheckout) = checkoutValue sampleCheckout"
proof -
  have e: "ulpExponent (7566047373982433 / 18014398509481984) = - 2 - 52"
    by (rule ulpExponent_binade) (simp_all add: power_int_def field_simps)
  show ?thesis
    unfolding sampleCheckout_def
    by (simp only: roundToDouble_def e ICheckoutProgress.simps)
       (simp add: roundHalfEven_def power_int_def Let_def power_one_over)
qed

lemma sampleCheckoutHalfway_is_double:
  "roundToDouble (checkoutValue sampleCheckoutHalfway) = checkoutValue sampleCheckoutHalfway"
proof -
  have e: "ulpExponent (7656119366529843 / 18014398509481984) = - 2 - 52"
    by (rule ulpExponent_binade) (simp_all add: power_int_def field_simps)
  show ?thesis
    unfolding sampleCheckoutHalfway_def
    by (simp only: roundToDouble_def e ICheckoutProgress.simps)
       (simp add: roundHalfEven_def power_int_def Let_def power_one_over)
qed

text \<open>Their products with 100, as the doubles give them: exactly 42, and exactly 42.5
  although the exact product is less.\<close>

lemma times_double_sampleCheckout:
  "times_double (7566047373982433 / 18014398509481984) 100 = 42"
proof -
  have e: "ulpExponent (7566047373982433 / 18014398509481984 * 100) = 5 - 52"
    by (rule ulpExponent_binade) (simp_all add: power_int_def field_simps)
  show ?thesis
    by (simp only: times_double_def roundToDouble_def e)
       (simp add: roundHalfEven_def power_int_def Let_def power_one_over)
qed

lemma times_double_sampleCheckoutHalfway:
  "times_double (7656119366529843 / 18014398509481984) 100 = 85 / 2"
proof -
  have e: "ulpExponent (7656119366529843 / 18014398509481984 * 100) = 5 - 52"
    by (rule ulpExponent_binade) (simp_all add: power_int_def field_simps)
  show ?thesis
    by (simp only: times_double_def roundToDouble_def e)
       (simp add: roundHalfEven_def power_int_def Let_def power_one_over)
qed

lemma exact_product_sampleCheckoutHalfway:
  "7656119366529843 / 18014398509481984 * 100 < (85 / 2 :: real)"
  by simp

subsection \<open>Helper facts about the classification\<close>

lemma classifyTip_classified:
  "isClassified (tip (branchesState (repositoryState p))) \<Longrightarrow>
   \<exists>d0. classifyTip DARWIN p = Inr (Some d0) \<and>
        disabled d0 = False \<and>
        icon d0 =
          (if (\<exists>sha. tip (branchesState (repositoryState p)) = Detached sha) then gitCommit
           else if currentPullRequest p \<noteq> None then gitPullRequest else gitBranch)"
  by (cases "tip (branchesState (repositoryState p))") (simp_all add: classifyTip_def Let_def)

lemma render_classified:
  assumes "isClassified (tip (branchesState (repositoryState p)))"
  shows "\<exists>r d0. render DARWIN p s = Inr (Some r) \<and>
           display r = applyOverrides DARWIN (repositoryState p) d0 \<and>
           disabled d0 = False \<and>
           icon d0 =
             (if (\<exists>sha. tip (branchesState (repositoryState p)) = Detached sha) then gitCommit
              else if currentPullRequest p \<noteq> None then gitPullRequest else gitBranch)"
proof -
  from classifyTip_classified [OF assms, of DARWIN] obtain d0 where
    c: "classifyTip DARWIN p = Inr (Some d0)" and
    d: "disabled d0 = False" and
    i: "icon d0 =
          (if (\<exists>sha. tip (branchesState (repositoryState p)) = Detached sha) then gitCommit
           else if currentPullRequest p \<noteq> None then gitPullRequest else gitBranch)"
    by blast
  from c have "\<exists>r. render DARWIN p s = Inr (Some r) \<and>
      display r = applyOverrides DARWIN (repositoryState p) d0"
    by (simp add: render_def displayState_def)
  with d i show ?thesis by blast
qed

lemma withinSubtree_iff:
  "withinSubtree document i t =
     (\<exists>e. getElementById document i = Some e \<and> contains_node document e t)"
  by (auto simp add: contains_node_def withinSubtree_def list_ex_iff)

lemma step_preserves_atMostOneOpen:
  assumes "atMostOneOpen v"
    and "popoverOpen v \<longrightarrow> \<not> opensPicker (handle dnd document (withVisibility v p) e)"
  shows "atMostOneOpen (step dnd document p v e)"
proof (cases e)
  case (DropDownStateChange state)
  with assms show ?thesis
    by (cases state)
       (auto simp add: atMostOneOpen_def opensPicker_def step_def dispatchAll_def
          onDropDownStateChanged_def)
next
  case MouseEnter
  with assms show ?thesis
    by (auto simp add: atMostOneOpen_def opensPicker_def step_def dispatchAll_def
          onMouseEnter_def)
next
  case BadgeClick
  then show ?thesis
    by (simp add: atMostOneOpen_def step_def dispatchAll_def onBadgeClick_def
          togglePopover_def closePopover_def openPopover_def withVisibility_def)
next
  case (ClosePopover event)
  with assms(1) show ?thesis
    by (auto simp add: atMostOneOpen_def step_def dispatchAll_def closePopover_def Let_def
          split: option.splits EventTarget.splits)
qed

subsection \<open>The gate of the dropdown\<close>

text \<open>
  C1, as the specification states it, fails: with a rebase conflict and no checkout in
  progress \<open>render\<close> derives \<open>canOpen = false\<close>, and yet \<open>onDropDownStateChanged\<close>
  forwards an open request to the host.
\<close>

theorem rebase_open_request_forwarded_counterexample:
  "(case render False (sampleProps (Valid sampleBranch) None (Some (RebaseConflictState ''main'')) None)
           sampleState of
      Inr (Some r) \<Rightarrow> canOpen (display r) = False
    | _ \<Rightarrow> False) \<and>
   onDropDownStateChanged
     (sampleProps (Valid sampleBranch) None (Some (RebaseConflictState ''main'')) None) Open
     = [PropsOnDropDownStateChanged Open]"
  by (simp add: render_def displayState_def classifyTip_def applyOverrides_def Let_def
        sampleProps_def sampleBranch_def onDropDownStateChanged_def)

text \<open>
  C1, amended: \<open>onDropDownStateChanged\<close> drops an open request if and only if a checkout is
  in progress, and forwards it to the host otherwise, whatever \<open>canOpen\<close> is; it always
  forwards a close request; and \<open>render\<close> passes the dropdown state \<open>closed\<close> to the
  dropdown whenever \<open>canOpen\<close> is false.
\<close>

theorem onDropDownStateChanged_gate:
  "(onDropDownStateChanged p Open = [] \<longleftrightarrow> checkoutProgress (repositoryState p) \<noteq> None) \<and>
   (checkoutProgress (repositoryState p) = None \<longrightarrow>
      onDropDownStateChanged p Open = [PropsOnDropDownStateChanged Open]) \<and>
   onDropDownStateChanged p Closed = [PropsOnDropDownStateChanged Closed] \<and>
   (\<forall>r. render DARWIN p s = Inr (Some r) \<longrightarrow> \<not> canOpen (display r) \<longrightarrow> dropdownState r = Closed)"
  by (auto simp add: onDropDownStateChanged_def render_def split: sum.splits option.splits)

theorem onDropDownStateChanged_gate_witness:
  "checkoutProgress (repositoryState
      (sampleProps (Valid sampleBranch) None (Some (RebaseConflictState ''main'')) None)) = None \<and>
   onDropDownStateChanged
     (sampleProps (Valid sampleBranch) None (Some (RebaseConflictState ''main'')) None) Open
     = [PropsOnDropDownStateChanged Open] \<and>
   onDropDownStateChanged (sampleProps (Valid sampleBranch) (Some sampleCheckout) None None) Open = [] \<and>
   onDropDownStateChanged (sampleProps (Valid sampleBranch) (Some sampleCheckout) None None) Closed
     = [PropsOnDropDownStateChanged Closed]"
  using onDropDownStateChanged_gate
          [of "sampleProps (Valid sampleBranch) None (Some (RebaseConflictState ''main'')) None"
              False sampleState]
        onDropDownStateChanged_gate
          [of "sampleProps (Valid sampleBranch) (Some sampleCheckout) None None" False sampleState]
  by (simp add: sampleProps_def)

subsection \<open>Drag hover\<close>

text \<open>
  C2, as the specification states it, fails: while a checkout is in progress the gate
  drops an open request, and yet a pointer-enter during a commit drag asks the dispatcher
  to show the branch foldout.
\<close>

theorem drag_hover_during_checkout_counterexample:
  "onDropDownStateChanged (sampleProps (Valid sampleBranch) (Some sampleCheckout) None None) Open = [] \<and>
   onMouseEnter (Some Commit) (sampleProps (Valid sampleBranch) (Some sampleCheckout) None None)
     = [EmitEnterDragZone ''branch-button'', ShowFoldout FoldoutType_Branch]"
  by (simp add: onDropDownStateChanged_def onMouseEnter_def isDragOfTypeInProgress_def
        sampleProps_def)

text \<open>
  C2, amended: on pointer-enter, if a commit drag is in progress the drag manager is told
  that the zone \<open>branch-button\<close> was entered and the dispatcher is asked directly to show
  the branch foldout, whatever the props are (the gate is not consulted); if no commit
  drag is in progress, nothing happens.
\<close>

theorem onMouseEnter_calls:
  "(isDragOfTypeInProgress dnd Commit \<longrightarrow>
      onMouseEnter dnd p = [EmitEnterDragZone ''branch-button'', ShowFoldout FoldoutType_Branch]) \<and>
   (\<not> isDragOfTypeInProgress dnd Commit \<longrightarrow> onMouseEnter dnd p = [])"
  by (simp add: onMouseEnter_def)

theorem onMouseEnter_calls_witness:
  "isDragOfTypeInProgress (Some Commit) Commit \<and>
   onMouseEnter (Some Commit) (sampleProps (Valid sampleBranch) None None None)
     = [EmitEnterDragZone ''branch-button'', ShowFoldout FoldoutType_Branch] \<and>
   \<not> isDragOfTypeInProgress (Some OtherDragType) Commit \<and>
   onMouseEnter (Some OtherDragType) (sampleProps (Valid sampleBranch) None None None) = [] \<and>
   \<not> isDragOfTypeInProgress None Commit \<and>
   onMouseEnter None (sampleProps (Valid sampleBranch) None None None) = []"
  using onMouseEnter_calls [of "Some Commit" "sampleProps (Valid sampleBranch) None None None"]
        onMouseEnter_calls [of "Some OtherDragType" "sampleProps (Valid sampleBranch) None None None"]
        onMouseEnter_calls [of None "sampleProps (Valid sampleBranch) None None None"]
  by (simp add: isDragOfTypeInProgress_def)

subsection \<open>The overrides of the display\<close>

text \<open>
  C3, as the specification states it, fails: in a build for macOS (\<open>__DARWIN__\<close> set) the
  description of a checkout in progress is "Switching to Branch", with a capital B.
\<close>

theorem darwin_description_counterexample:
  "(case render True (sampleProps (Valid sampleBranch) (Some sampleCheckout) None None)
           sampleState of
      Inr (Some r) \<Rightarrow>
        description (display r) = ''Switching to Branch (42%)'' \<and>
        description (display r) \<noteq> ''Switching to branch (42%)''
    | _ \<Rightarrow> False)"
  by (simp add: render_def displayState_def classifyTip_def applyOverrides_def Let_def
        sampleProps_def sampleBranch_def sampleCheckout_def times_double_sampleCheckout
        Math_round_def string_of_int_def)

text \<open>
  C3, amended: whenever a checkout is in progress, with a rebase conflict or without, the
  element that \<open>render\<close> builds for a classified tip has the target branch of the checkout
  as its title; its description is "Switching to branch" ("Switching to Branch" in a
  build for macOS), followed by a suffix in parentheses ending in a percent sign exactly
  when the progress is positive; for a progress of at most 1 the suffix shows the
  integer nearest to the product of the progress with 100 as the doubles give it, a half
  rounded up; the icon is the spinning sync icon, \<open>canOpen\<close> is false, \<open>disabled\<close> is false
  as the classification left it, and the progress value is that of the checkout. Nothing
  of the display of the conflict remains.
\<close>

theorem checkout_overrides_display:
  assumes "checkoutProgress (repositoryState p) = Some cp"
    and "isClassified (tip (branchesState (repositoryState p)))"
  shows "\<exists>r. render DARWIN p s = Inr (Some r) \<and>
           title (display r) = targetBranch cp \<and>
           (checkoutValue cp \<le> 0 \<longrightarrow>
              description (display r) =
                (if DARWIN then ''Switching to Branch'' else ''Switching to branch'')) \<and>
           (0 < checkoutValue cp \<longrightarrow>
              (\<exists>pct. description (display r) =
                 (if DARWIN then ''Switching to Branch'' else ''Switching to branch'') @
                 '' ('' @ pct @ ''%)'')) \<and>
           (0 < checkoutValue cp \<and> checkoutValue cp \<le> 1 \<longrightarrow>
              (\<exists>n. description (display r) =
                 (if DARWIN then ''Switching to Branch'' else ''Switching to branch'') @
                 '' ('' @ string_of_int n @ ''%)'' \<and>
                 of_int n - 1 / 2 \<le> times_double (checkoutValue cp) 100 \<and>
                 times_double (checkoutValue cp) 100 < of_int n + 1 / 2)) \<and>
           icon (display r) = syncClockwise \<and>
           iconClassName (display r) = Some ''spin'' \<and>
           canOpen (display r) = False \<and>
           disabled (display r) = False \<and>
           progressValue (display r) = Some (checkoutValue cp)"
proof -
  from render_classified [OF assms(2), of DARWIN s] obtain r d0 where
    r: "render DARWIN p s = Inr (Some r)" and
    dr: "display r = applyOverrides DARWIN (repositoryState p) d0" and
    d0: "disabled d0 = False"
    by blast
  let ?base = "(if DARWIN then ''Switching to Branch'' else ''Switching to branch'')"
  let ?n = "Math_round (times_double (checkoutValue cp) 100)"
  from dr assms(1) have descr:
    "description (display r) =
       (if checkoutValue cp > 0 then ?base @ '' ('' @ string_of_int ?n @ ''%)'' else ?base)"
    by (simp add: applyOverrides_def Let_def)
  from dr d0 assms(1) have rest:
    "title (display r) = targetBranch cp \<and>
     icon (display r) = syncClockwise \<and>
     iconClassName (display r) = Some ''spin'' \<and>
     canOpen (display r) = False \<and>
     disabled (display r) = False \<and>
     progressValue (display r) = Some (checkoutValue cp)"
    by (simp add: applyOverrides_def Let_def)
  have nearest:
    "of_int ?n - 1 / 2 \<le> times_double (checkoutValue cp) 100 \<and>
     times_double (checkoutValue cp) 100 < of_int ?n + 1 / 2"
    unfolding Math_round_def by linarith
  have none: "checkoutValue cp \<le> 0 \<longrightarrow> description (display r) = ?base"
    using descr by simp
  have some: "0 < checkoutValue cp \<longrightarrow>
      (\<exists>pct. description (display r) = ?base @ '' ('' @ pct @ ''%)'')"
    using descr by auto
  have digits: "0 < checkoutValue cp \<and> checkoutValue cp \<le> 1 \<longrightarrow>
      (\<exists>n. description (display r) = ?base @ '' ('' @ string_of_int n @ ''%)'' \<and>
           of_int n - 1 / 2 \<le> times_double (checkoutValue cp) 100 \<and>
           times_double (checkoutValue cp) 100 < of_int n + 1 / 2)"
  proof
    assume "0 < checkoutValue cp \<and> checkoutValue cp \<le> 1"
    with descr have "description (display r) = ?base @ '' ('' @ string_of_int ?n @ ''%)''"
      by simp
    with nearest show
      "\<exists>n. description (display r) = ?base @ '' ('' @ string_of_int n @ ''%)'' \<and>
           of_int n - 1 / 2 \<le> times_double (checkoutValue cp) 100 \<and>
           times_double (checkoutValue cp) 100 < of_int n + 1 / 2"
      by (intro exI [of _ ?n]) simp
  qed
  from r rest none some digits show ?thesis
    by (intro exI [of _ r]) simp
qed

theorem checkout_overrides_display_witness:
  "checkoutProgress (repositoryState
      (sampleProps (Valid sampleBranch) (Some sampleCheckoutHalfway)
         (Some (RebaseConflictState ''main'')) None))
     = Some sampleCheckoutHalfway \<and>
   isClassified (tip (branchesState (repositoryState
      (sampleProps (Valid sampleBranch) (Some sampleCheckoutHalfway)
         (Some (RebaseConflictState ''main'')) None)))) \<and>
   0 < checkoutValue sampleCheckoutHalfway \<and> checkoutValue sampleCheckoutHalfway \<le> 1 \<and>
   (\<exists>r. render False
          (sampleProps (Valid sampleBranch) (Some sampleCheckoutHalfway)
             (Some (RebaseConflictState ''main'')) None)
          sampleState = Inr (Some r) \<and>
        title (display r) = ''feature'' \<and>
        description (display r) = ''Switching to branch (43%)'' \<and>
        icon (display r) = syncClockwise \<and>
        iconClassName (display r) = Some ''spin'' \<and>
        canOpen (display r) = False \<and>
        disabled (display r) = False \<and>
        progressValue (display r) = Some (7656119366529843 / 18014398509481984))"
proof -
  let ?p = "sampleProps (Valid sampleBranch) (Some sampleCheckoutHalfway)
              (Some (RebaseConflictState ''main'')) None"
  have h1: "checkoutProgress (repositoryState ?p) = Some sampleCheckoutHalfway"
    by (simp add: sampleProps_def)
  have h2: "isClassified (tip (branchesState (repositoryState ?p)))"
    by (simp add: sampleProps_def)
  have v: "0 < checkoutValue sampleCheckoutHalfway \<and> checkoutValue sampleCheckoutHalfway \<le> 1"
    by (simp add: sampleCheckoutHalfway_def)
  from checkout_overrides_display [OF h1 h2, of False sampleState] v obtain r n where
    r: "render False ?p sampleState = Inr (Some r)" and
    t: "title (display r) = targetBranch sampleCheckoutHalfway" and
    d: "description (display r) = ''Switching to branch'' @ '' ('' @ string_of_int n @ ''%)''" and
    lo: "of_int n - 1 / 2 \<le> times_double (checkoutValue sampleCheckoutHalfway) 100" and
    hi: "times_double (checkoutValue sampleCheckoutHalfway) 100 < of_int n + 1 / 2" and
    rest: "icon (display r) = syncClockwise" "iconClassName (display r) = Some ''spin''"
      "canOpen (display r) = False" "disabled (display r) = False"
      "progressValue (display r) = Some (checkoutValue sampleCheckoutHalfway)"
    by auto
  from lo hi have "n = 43"
    by (simp add: sampleCheckoutHalfway_def times_double_sampleCheckoutHalfway)
  with d have "description (display r) = ''Switching to branch (43%)''"
    by (simp add: string_of_int_def)
  with r t rest h1 h2 v show ?thesis
    by (simp add: sampleCheckoutHalfway_def)
qed

text \<open>
  C4, as the specification states it, fails: with a rebase conflict and a checkout in
  progress the element is not disabled, and its title and description are those of the
  checkout.
\<close>

theorem rebase_under_checkout_counterexample:
  "(case render False
           (sampleProps (Valid sampleBranch) (Some sampleCheckout) (Some (RebaseConflictState ''main'')) None)
           sampleState of
      Inr (Some r) \<Rightarrow>
        disabled (display r) = False \<and> title (display r) = ''feature'' \<and>
        description (display r) = ''Switching to branch (42%)'' \<and> icon (display r) = syncClockwise
    | _ \<Rightarrow> False)"
  by (simp add: render_def displayState_def classifyTip_def applyOverrides_def Let_def
        sampleProps_def sampleBranch_def sampleCheckout_def times_double_sampleCheckout
        Math_round_def string_of_int_def)

text \<open>
  C4, amended: for every conflict state of the rebase kind and every classified tip, the
  element has \<open>canOpen\<close> false; and when no checkout is in progress it is disabled, its title
  is the target branch of the conflict, its description is "Rebasing branch" and its icon
  is the branch icon.
\<close>

theorem rebase_conflict_display:
  assumes "conflictState (changesState (repositoryState p)) = Some c"
    and "isRebaseConflictState c"
    and "isClassified (tip (branchesState (repositoryState p)))"
  shows "\<exists>r. render DARWIN p s = Inr (Some r) \<and>
           canOpen (display r) = False \<and>
           (checkoutProgress (repositoryState p) = None \<longrightarrow>
              disabled (display r) = True \<and>
              title (display r) = conflictTargetBranch c \<and>
              description (display r) = ''Rebasing branch'' \<and>
              icon (display r) = gitBranch)"
proof -
  from render_classified [OF assms(3), of DARWIN s] obtain r d0 where
    r: "render DARWIN p s = Inr (Some r)" and
    dr: "display r = applyOverrides DARWIN (repositoryState p) d0"
    by blast
  from dr assms(1,2) have
    "canOpen (display r) = False \<and>
     (checkoutProgress (repositoryState p) = None \<longrightarrow>
        disabled (display r) = True \<and>
        title (display r) = conflictTargetBranch c \<and>
        description (display r) = ''Rebasing branch'' \<and>
        icon (display r) = gitBranch)"
    by (simp add: applyOverrides_def Let_def split: option.splits)
  with r show ?thesis by (intro exI [of _ r]) simp
qed

theorem rebase_conflict_display_witness:
  "conflictState (changesState (repositoryState
      (sampleProps (Detached ''abcdef1234567'') None (Some (RebaseConflictState ''main'')) None)))
     = Some (RebaseConflictState ''main'') \<and>
   isRebaseConflictState (RebaseConflictState ''main'') \<and>
   isClassified (tip (branchesState (repositoryState
      (sampleProps (Detached ''abcdef1234567'') None (Some (RebaseConflictState ''main'')) None)))) \<and>
   (\<exists>r. render False
          (sampleProps (Detached ''abcdef1234567'') None (Some (RebaseConflictState ''main'')) None)
          sampleState = Inr (Some r) \<and>
        canOpen (display r) = False \<and>
        disabled (display r) = True \<and>
        title (display r) = ''main'' \<and>
        description (display r) = ''Rebasing branch'' \<and>
        icon (display r) = gitBranch)"
  using rebase_conflict_display
          [of "sampleProps (Detached ''abcdef1234567'') None (Some (RebaseConflictState ''main'')) None"
              "RebaseConflictState ''main''" False sampleState]
  by (simp add: sampleProps_def)

text \<open>
  C5, as the specification states it, fails: on a detached tip with a current pull
  request the icon is the commit icon.
\<close>

theorem detached_tip_icon_counterexample:
  "(case render False (sampleProps (Detached ''abcdef1234567'') None None (Some samplePullRequest))
           sampleState of
      Inr (Some r) \<Rightarrow> icon (display r) = gitCommit \<and> title (display r) = ''On abcdef1''
    | _ \<Rightarrow> False)"
  by (simp add: render_def displayState_def classifyTip_def applyOverrides_def Let_def
        sampleProps_def)

text \<open>
  C5, amended: whenever a current pull request exists, no checkout is in progress and no
  rebase conflict is present, the icon is the pull-request icon on an unborn and on a
  valid tip, and the commit icon on a detached tip; a checkout in progress puts the sync
  icon and a rebase conflict the branch icon in its place.
\<close>

theorem pull_request_icon:
  assumes "currentPullRequest p = Some pr"
    and "isClassified (tip (branchesState (repositoryState p)))"
  shows "\<exists>r. render DARWIN p s = Inr (Some r) \<and>
           icon (display r) =
             (if checkoutProgress (repositoryState p) \<noteq> None then syncClockwise
              else if (\<exists>c. conflictState (changesState (repositoryState p)) = Some c \<and>
                           isRebaseConflictState c)
                then gitBranch
              else if (\<exists>sha. tip (branchesState (repositoryState p)) = Detached sha)
                then gitCommit
              else gitPullRequest)"
proof -
  from render_classified [OF assms(2), of DARWIN s] obtain r d0 where
    r: "render DARWIN p s = Inr (Some r)" and
    dr: "display r = applyOverrides DARWIN (repositoryState p) d0" and
    i: "icon d0 =
          (if (\<exists>sha. tip (branchesState (repositoryState p)) = Detached sha) then gitCommit
           else if currentPullRequest p \<noteq> None then gitPullRequest else gitBranch)"
    by blast
  from dr i assms(1) have
    "icon (display r) =
       (if checkoutProgress (repositoryState p) \<noteq> None then syncClockwise
        else if (\<exists>c. conflictState (changesState (repositoryState p)) = Some c \<and>
                     isRebaseConflictState c)
          then gitBranch
        else if (\<exists>sha. tip (branchesState (repositoryState p)) = Detached sha)
          then gitCommit
        else gitPullRequest)"
    by (auto simp add: applyOverrides_def Let_def split: option.splits)
  with r show ?thesis by (intro exI [of _ r]) simp
qed

theorem pull_request_icon_witness:
  "currentPullRequest (sampleProps (Unborn ''main'') None None (Some samplePullRequest))
     = Some samplePullRequest \<and>
   isClassified (tip (branchesState (repositoryState
      (sampleProps (Unborn ''main'') None None (Some samplePullRequest))))) \<and>
   (\<exists>r. render False (sampleProps (Unborn ''main'') None None (Some samplePullRequest)) sampleState
          = Inr (Some r) \<and>
        icon (display r) = gitPullRequest)"
  using pull_request_icon
          [of "sampleProps (Unborn ''main'') None None (Some samplePullRequest)" samplePullRequest
              False sampleState]
  by (simp add: sampleProps_def)

subsection \<open>Closing the popover\<close>

text \<open>
  C6: called with a pointer event, \<open>closePopover\<close> asks for the popover to be closed unless
  the target of the event is a node within the subtree of the element \<open>pr-badge\<close> or of
  the element \<open>rerun-check-runs\<close>, where "within the subtree" is the containment test on
  the chain of ancestors; a target inside either subtree never closes the popover, any
  other target (null and objects that are no nodes included) always does; called with no
  event, it asks for the popover to be closed.
\<close>

theorem closePopover_outside_dismiss:
  "closePopover document None = [SetShowCIStatusPopover False] \<and>
   closePopover document (Some ev) =
     (if isOutsideDismissTarget document (target ev) [''pr-badge'', ''rerun-check-runs'']
      then [SetShowCIStatusPopover False] else [])"
  by (auto simp add: closePopover_def isOutsideDismissTarget_def withinSubtree_iff Let_def
        split: option.splits EventTarget.splits)

theorem closePopover_outside_dismiss_witness:
  "closePopover sampleDocument None = [SetShowCIStatusPopover False] \<and>
   withinSubtree sampleDocument ''pr-badge'' [0, 0, 0] \<and>
   closePopover sampleDocument (Some \<lparr>target = Some (NodeTarget [0, 0, 0])\<rparr>) = [] \<and>
   withinSubtree sampleDocument ''rerun-check-runs'' [1] \<and>
   closePopover sampleDocument (Some \<lparr>target = Some (NodeTarget [1])\<rparr>) = [] \<and>
   closePopover sampleDocument (Some \<lparr>target = Some (NodeTarget [0])\<rparr>)
     = [SetShowCIStatusPopover False] \<and>
   closePopover sampleDocument (Some \<lparr>target = Some (NodeTarget [2])\<rparr>)
     = [SetShowCIStatusPopover False] \<and>
   closePopover sampleDocument (Some \<lparr>target = Some OtherTarget\<rparr>)
     = [SetShowCIStatusPopover False] \<and>
   closePopover sampleDocument (Some \<lparr>target = None\<rparr>) = [SetShowCIStatusPopover False]"
  using closePopover_outside_dismiss [of sampleDocument "\<lparr>target = Some (NodeTarget [0, 0, 0])\<rparr>"]
        closePopover_outside_dismiss [of sampleDocument "\<lparr>target = Some (NodeTarget [1])\<rparr>"]
        closePopover_outside_dismiss [of sampleDocument "\<lparr>target = Some (NodeTarget [0])\<rparr>"]
        closePopover_outside_dismiss [of sampleDocument "\<lparr>target = Some (NodeTarget [2])\<rparr>"]
        closePopover_outside_dismiss [of sampleDocument "\<lparr>target = Some OtherTarget\<rparr>"]
        closePopover_outside_dismiss [of sampleDocument "\<lparr>target = None\<rparr>"]
  by (simp add: isOutsideDismissTarget_def withinSubtree_def sampleDocument_def)

subsection \<open>Toggling the popover\<close>

text \<open>
  C7: for every starting value of the popover flag, two toggles in succession bring the
  flag back to it, whatever the rest of the props is at either toggle: the toggle of an
  open popover asks for it to be closed, and the toggle of a closed popover asks for the
  branch foldout to be closed and then for the popover to be opened.
\<close>

theorem togglePopover_twice:
  "popoverOpen (step dnd2 document2 p2 (step dnd1 document1 p1 v BadgeClick) BadgeClick)
     = popoverOpen v \<and>
   togglePopover document (withVisibility v p) =
     (if popoverOpen v then [SetShowCIStatusPopover False]
      else [CloseFoldout FoldoutType_Branch, SetShowCIStatusPopover True])"
  by (simp add: step_def dispatchAll_def onBadgeClick_def togglePopover_def closePopover_def
        openPopover_def withVisibility_def)

theorem togglePopover_twice_witness:
  "popoverOpen (step None sampleDocument (sampleProps (Valid sampleBranch) None None None)
      bothClosed BadgeClick) = True \<and>
   popoverOpen (step None sampleDocument (sampleProps (Valid sampleBranch) None None None)
      (step None sampleDocument (sampleProps (Valid sampleBranch) None None None)
         bothClosed BadgeClick) BadgeClick) = False \<and>
   togglePopover sampleDocument
     (withVisibility bothClosed (sampleProps (Valid sampleBranch) None None None))
     = [CloseFoldout FoldoutType_Branch, SetShowCIStatusPopover True]"
  using togglePopover_twice
          [of None sampleDocument "sampleProps (Valid sampleBranch) None None None"
              None sampleDocument "sampleProps (Valid sampleBranch) None None None"
              bothClosed sampleDocument "sampleProps (Valid sampleBranch) None None None"]
  by (simp add: bothClosed_def step_def dispatchAll_def onBadgeClick_def togglePopover_def
        openPopover_def withVisibility_def)

subsection \<open>The two surfaces\<close>

text \<open>
  C8, as the specification states it, fails: with the popover open, a pointer-enter
  during a commit drag asks for the branch foldout to be shown and makes no call that
  closes the popover, so that both flags are true afterwards.
\<close>

theorem both_surfaces_open_counterexample:
  "onMouseEnter (Some Commit)
     (withVisibility
        (step None sampleDocument (sampleProps (Valid sampleBranch) None None None) bothClosed BadgeClick)
        (sampleProps (Valid sampleBranch) None None None))
     = [EmitEnterDragZone ''branch-button'', ShowFoldout FoldoutType_Branch] \<and>
   pickerOpen
     (step (Some Commit) sampleDocument (sampleProps (Valid sampleBranch) None None None)
        (step None sampleDocument (sampleProps (Valid sampleBranch) None None None) bothClosed BadgeClick)
        MouseEnter) \<and>
   popoverOpen
     (step (Some Commit) sampleDocument (sampleProps (Valid sampleBranch) None None None)
        (step None sampleDocument (sampleProps (Valid sampleBranch) None None None) bothClosed BadgeClick)
        MouseEnter)"
  by (simp add: bothClosed_def step_def dispatchAll_def onBadgeClick_def togglePopover_def
        openPopover_def withVisibility_def onMouseEnter_def isDragOfTypeInProgress_def)

text \<open>
  C8, amended: in every state of the two flags that is reached from both surfaces closed
  by handler steps of which none asks for the picker to open while the popover is open,
  at most one flag is true. (The toggle that opens the popover first asks for the branch
  foldout to be closed; the handlers that open the picker make no call about the
  popover.)
\<close>

theorem guardedReachable_atMostOneOpen:
  "guardedReachable v \<Longrightarrow> atMostOneOpen v"
proof (induction rule: guardedReachable.induct)
  case initial
  show ?case by (simp add: atMostOneOpen_def)
next
  case (after v dnd document p e)
  then show ?case by (simp add: step_preserves_atMostOneOpen)
qed

theorem guardedReachable_atMostOneOpen_witness:
  "guardedReachable
     (step None sampleDocument (sampleProps (Valid sampleBranch) None None None) bothClosed BadgeClick) \<and>
   atMostOneOpen
     (step None sampleDocument (sampleProps (Valid sampleBranch) None None None) bothClosed BadgeClick) \<and>
   popoverOpen
     (step None sampleDocument (sampleProps (Valid sampleBranch) None None None) bothClosed BadgeClick)"
proof -
  have r: "guardedReachable
     (step None sampleDocument (sampleProps (Valid sampleBranch) None None None) bothClosed BadgeClick)"
    unfolding bothClosed_def by (rule guardedReachable.after [OF guardedReachable.initial]) simp
  have o: "popoverOpen
     (step None sampleDocument (sampleProps (Valid sampleBranch) None None None) bothClosed BadgeClick)"
    by (simp add: bothClosed_def step_def dispatchAll_def onBadgeClick_def togglePopover_def
          openPopover_def withVisibility_def)
  from r o guardedReachable_atMostOneOpen [OF r] show ?thesis by simp
qed

subsection \<open>Exhaustiveness of the classification\<close>

text \<open>
  C9: an unknown tip makes \<open>render\<close> return nothing, which is no failure; a tip outside of
  the four kinds makes it fail with the unreachable-state error, which carries the kind
  and ends the render; and each of the three other kinds yields an element. No tip falls
  through to a default display.
\<close>

theorem tip_classification_exhaustive:
  "(case tip (branchesState (repositoryState p)) of
      Unknown \<Rightarrow> render DARWIN p s = Inr None
    | Unrecognized k \<Rightarrow> render DARWIN p s = Inl (UnreachableState (''Unknown tip state: '' @ k))
    | _ \<Rightarrow> \<exists>r. render DARWIN p s = Inr (Some r))"
  by (cases "tip (branchesState (repositoryState p))")
     (simp_all add: render_def displayState_def classifyTip_def Let_def assertNever_def)

theorem tip_classification_exhaustive_witness:
  "render False (sampleProps Unknown (Some sampleCheckout) None (Some samplePullRequest)) sampleState
     = Inr None \<and>
   render False (sampleProps (Unrecognized ''Bare'') None None None) sampleState
     = Inl (UnreachableState ''Unknown tip state: Bare'') \<and>
   (\<exists>r. render False (sampleProps (Unborn ''main'') None None None) sampleState = Inr (Some r)) \<and>
   (\<exists>r. render False (sampleProps (Detached ''abcdef1234567'') None None None) sampleState
           = Inr (Some r)) \<and>
   (\<exists>r. render False (sampleProps (Valid sampleBranch) None None None) sampleState = Inr (Some r))"
  using tip_classification_exhaustive
          [where p = "sampleProps Unknown (Some sampleCheckout) None (Some samplePullRequest)"
             and DARWIN = False and s = sampleState]
        tip_classification_exhaustive
          [where p = "sampleProps (Unrecognized ''Bare'') None None None"
             and DARWIN = False and s = sampleState]
        tip_classification_exhaustive
          [where p = "sampleProps (Unborn ''main'') None None None"
             and DARWIN = False and s = sampleState]
        tip_classification_exhaustive
          [where p = "sampleProps (Detached ''abcdef1234567'') None None None"
             and DARWIN = False and s = sampleState]
        tip_classification_exhaustive
          [where p = "sampleProps (Valid sampleBranch) None None None"
             and DARWIN = False and s = sampleState]
  by (simp add: sampleProps_def)

subsection \<open>The popover in render\<close>

text \<open>
  C10: without a current pull request \<open>render\<close> builds no popover, whatever the flag
  \<open>showCIStatusPopover\<close> is; the branch name of a popover that it builds is, on a valid
  tip, the upstream name without the remote, or the name of the branch when there is no
  such name, and the empty string on any other tip; and with the flag set, a current
  pull request and a classified tip it does build the popover.
\<close>

theorem render_popover:
  "(currentPullRequest p = None \<longrightarrow>
      (\<forall>r. render DARWIN p s = Inr (Some r) \<longrightarrow> popover r = None)) \<and>
   (\<forall>r c. render DARWIN p s = Inr (Some r) \<longrightarrow> popover r = Some c \<longrightarrow>
      branchName c =
        (case tip (branchesState (repositoryState p)) of
           Valid b \<Rightarrow> (case upstreamWithoutRemote b of Some u \<Rightarrow> u | None \<Rightarrow> name b)
         | _ \<Rightarrow> [])) \<and>
   (showCIStatusPopover p \<longrightarrow> currentPullRequest p \<noteq> None \<longrightarrow>
    isClassified (tip (branchesState (repositoryState p))) \<longrightarrow>
      (\<exists>r c. render DARWIN p s = Inr (Some r) \<and> popover r = Some c))"
  by (cases "tip (branchesState (repositoryState p))")
     (auto simp add: render_def displayState_def classifyTip_def Let_def assertNever_def
        renderPopover_def split: option.splits if_splits)

theorem render_popover_witness:
  "(\<exists>r. render False
           ((sampleProps (Valid sampleForkBranch) None None None)\<lparr>showCIStatusPopover := True\<rparr>)
           sampleState = Inr (Some r) \<and> popover r = None) \<and>
   (\<exists>r c. render False
           ((sampleProps (Valid sampleForkBranch) None None (Some samplePullRequest))
              \<lparr>showCIStatusPopover := True\<rparr>)
           sampleState = Inr (Some r) \<and> popover r = Some c \<and> branchName c = ''fix-typo'') \<and>
   (\<exists>r c. render False
           ((sampleProps (Valid sampleBranch) None None (Some samplePullRequest))
              \<lparr>showCIStatusPopover := True\<rparr>)
           sampleState = Inr (Some r) \<and> popover r = Some c \<and> branchName c = ''main'') \<and>
   (\<exists>r c. render False
           ((sampleProps (Unborn ''main'') None None (Some samplePullRequest))
              \<lparr>showCIStatusPopover := True\<rparr>)
           sampleState = Inr (Some r) \<and> popover r = Some c \<and> branchName c = [])"
proof -
  let ?a = "(sampleProps (Valid sampleForkBranch) None None None)\<lparr>showCIStatusPopover := True\<rparr>"
  let ?b = "(sampleProps (Valid sampleForkBranch) None None (Some samplePullRequest))
              \<lparr>showCIStatusPopover := True\<rparr>"
  let ?c = "(sampleProps (Valid sampleBranch) None None (Some samplePullRequest))
              \<lparr>showCIStatusPopover := True\<rparr>"
  let ?d = "(sampleProps (Unborn ''main'') None None (Some samplePullRequest))
              \<lparr>showCIStatusPopover := True\<rparr>"
  have ra: "\<exists>r. render False ?a sampleState = Inr (Some r)"
    by (simp add: render_def displayState_def classifyTip_def sampleProps_def)
  have a: "\<exists>r. render False ?a sampleState = Inr (Some r) \<and> popover r = None"
    using ra render_popover [of ?a False sampleState] by (auto simp add: sampleProps_def)
  have b: "\<exists>r c. render False ?b sampleState = Inr (Some r) \<and> popover r = Some c \<and>
             branchName c = ''fix-typo''"
    using render_popover [of ?b False sampleState]
    by (auto simp add: sampleProps_def sampleForkBranch_def)
  have c: "\<exists>r c. render False ?c sampleState = Inr (Some r) \<and> popover r = Some c \<and>
             branchName c = ''main''"
    using render_popover [of ?c False sampleState]
    by (auto simp add: sampleProps_def sampleBranch_def)
  have d: "\<exists>r c. render False ?d sampleState = Inr (Some r) \<and> popover r = Some c \<and>
             branchName c = []"
    using render_popover [of ?d False sampleState]
    by (auto simp add: sampleProps_def)
  from a b c d show ?thesis by simp
qed

end
